theory Spec2Isabelle
  imports Complex_Main "HOL-Library.Sublist"
begin

section \<open>The deepfake detection service of backend/app.py\<close>

text \<open>
  The service has three functions of its own: \<open>load_model\<close> fills the process-wide
  model variable, \<open>predict_image\<close> turns one decoded image into a prediction record, and
  the request handler \<open>predict\<close> guards the upload's content type and wraps every failure
  of the processing in an HTTP error. Everything else is library code (PIL, torchvision,
  torch, timm, the file system, the upload object). The library calls are parameters of
  the model, collected in the record \<open>env\<close>; each of them may raise, so each returns
  \<open>exn + 'a\<close>. Tensors are values of the library and stay abstract (the type \<open>'t\<close>).

  Python floats are read as the real numbers they denote; not-a-number and the infinities
  are outside the model. Printing to the console is left out. The exceptions of the
  model are those of class \<open>Exception\<close>, which the handler's \<open>except Exception\<close>
  clause catches; interrupts and cancellation are outside the model.

  \<open>predict_image\<close> and \<open>predict\<close> take one argument the source does not write: \<open>rng\<close>,
  the state of the library's random number generator when the call is made.
\<close>

subsection \<open>Exceptions\<close>

datatype exn =
    RuntimeError string
  | FileNotFoundError string
  | LibraryError string string

text \<open>\<open>str e\<close> is Python's \<open>str(e)\<close>: the message the exception was built with.
  A \<open>LibraryError\<close> carries the class name and the message of an exception raised
  inside a library call.\<close>

fun str :: "exn \<Rightarrow> string" where
  "str (RuntimeError m) = m"
| "str (FileNotFoundError m) = m"
| "str (LibraryError c m) = m"

datatype http_exception = HTTPException nat string

subsection \<open>Rounding\<close>

text \<open>Python's \<open>round(x, ndigits)\<close> on a float rounds the exact value of \<open>x\<close> to the
  nearest multiple of \<open>10 ^ -ndigits\<close>, a tie going to the even multiple, and returns
  the float nearest to it; the model returns the multiple itself.\<close>

definition round_half_even :: "real \<Rightarrow> int" where
  "round_half_even y =
     (let n = \<lfloor>y\<rfloor>; f = y - of_int n
      in if f < 1 / 2 then n
         else if 1 / 2 < f then n + 1
         else if even n then n else n + 1)"

definition py_round :: "real \<Rightarrow> nat \<Rightarrow> real" where
  "py_round x ndigits = of_int (round_half_even (x * 10 ^ ndigits)) / 10 ^ ndigits"

subsection \<open>Data\<close>

text \<open>A PIL image: its colour mode and its pixel data.\<close>

record image =
  mode :: string
  pixels :: "nat list"

text \<open>The network object (an \<open>nn.Module\<close>): its parameters and its training flag,
  which \<open>model.eval()\<close> clears.\<close>

record net =
  weights :: "real list"
  training :: bool

definition net_eval :: "net \<Rightarrow> net" where
  "net_eval m = m\<lparr>training := False\<rparr>"

text \<open>The module's global variable \<open>model\<close>, \<open>None\<close> until \<open>load_model\<close> assigns it.\<close>

record state =
  model :: "net option"

text \<open>The uploaded file as the handler sees it.\<close>

record upload_file =
  content_type :: "string option"
  filename :: "string option"
  body :: "nat list"

text \<open>The dictionary \<open>predict_image\<close> returns, with its nested \<open>probabilities\<close>
  dictionary (keys \<open>real\<close> and \<open>fake\<close>).\<close>

record probs =
  prob_real :: real
  prob_fake :: real

record prediction =
  is_fake :: bool
  confidence :: real
  label :: string
  probabilities :: probs

text \<open>The handler's answer: \<open>success\<close>, \<open>filename\<close> and the keys of the prediction
  merged in by \<open>**result\<close>, kept here as one field.\<close>

record response =
  success :: bool
  resp_filename :: "string option"
  result :: prediction

subsection \<open>Library calls and their order\<close>

text \<open>One event per library call made while a request is processed. A computation
  returns the events in the order the calls were made, and either the exception that
  ended it or its value.\<close>

datatype event =
    EvRead | EvOpen | EvConvert | EvResize | EvToTensor | EvNormalize
  | EvUnsqueeze | EvForward | EvSoftmax | EvItem

type_synonym 'a io = "event list \<times> (exn + 'a)"

definition io_return :: "'a \<Rightarrow> 'a io" where
  "io_return x = ([], Inr x)"

definition io_raise :: "exn \<Rightarrow> 'a io" where
  "io_raise e = ([], Inl e)"

definition io_call :: "event \<Rightarrow> exn + 'a \<Rightarrow> 'a io" where
  "io_call ev r = ([ev], r)"

definition io_bind :: "'a io \<Rightarrow> ('a \<Rightarrow> 'b io) \<Rightarrow> 'b io" where
  "io_bind p f =
     (case p of
        (t, Inl e) \<Rightarrow> (t, Inl e)
      | (t, Inr x) \<Rightarrow> (case f x of (t', r) \<Rightarrow> (t @ t', r)))"

text \<open>
  The library, as the source calls it:
  \<^item> \<open>module_dir\<close> is \<open>os.path.dirname(__file__)\<close>, \<open>path_exists\<close> is \<open>os.path.exists\<close>;
  \<^item> \<open>timm_create_model name pretrained num_classes\<close>, \<open>torch_load path\<close> and
    \<open>load_state_dict m state_dict\<close> (which changes the network in place and may then
    raise: it returns the network as it leaves it, and the exception if any);
  \<^item> \<open>file_read\<close> is \<open>await file.read()\<close>, \<open>image_open\<close> is \<open>Image.open(io.BytesIO(_))\<close>,
    \<open>convert image m\<close> is \<open>image.convert(m)\<close>;
  \<^item> \<open>resize\<close>, \<open>to_tensor\<close> and \<open>normalize_tensor\<close> are the three torchvision
    transforms, \<open>unsqueeze t d\<close> is \<open>t.unsqueeze(d)\<close>;
  \<^item> \<open>forward m rng t\<close> is the call \<open>model(t)\<close>; \<open>rng\<close> stands for the state of the
    library's random number generator at the time of the call, which a network in
    training mode consults (dropout);
  \<^item> \<open>softmax t d\<close> is \<open>torch.softmax(t, dim=d)\<close> and \<open>item t i j\<close> is \<open>t[i][j].item()\<close>.
  The device is the CPU throughout, where \<open>.to(DEVICE)\<close> returns its argument.
\<close>

record 't env =
  module_dir :: string
  path_exists :: "string \<Rightarrow> bool"
  timm_create_model :: "string \<Rightarrow> bool \<Rightarrow> nat \<Rightarrow> exn + net"
  torch_load :: "string \<Rightarrow> exn + real list"
  load_state_dict :: "net \<Rightarrow> real list \<Rightarrow> net \<times> exn option"
  file_read :: "upload_file \<Rightarrow> exn + nat list"
  image_open :: "nat list \<Rightarrow> exn + image"
  convert :: "image \<Rightarrow> string \<Rightarrow> exn + image"
  resize :: "nat \<times> nat \<Rightarrow> image \<Rightarrow> exn + image"
  to_tensor :: "image \<Rightarrow> exn + 't"
  normalize_tensor :: "real list \<Rightarrow> real list \<Rightarrow> 't \<Rightarrow> exn + 't"
  unsqueeze :: "'t \<Rightarrow> nat \<Rightarrow> exn + 't"
  forward :: "net \<Rightarrow> nat \<Rightarrow> 't \<Rightarrow> exn + 't"
  softmax :: "'t \<Rightarrow> nat \<Rightarrow> exn + 't"
  item :: "'t \<Rightarrow> nat \<Rightarrow> nat \<Rightarrow> exn + real"

subsection \<open>Configuration\<close>

text \<open>\<open>os.path.join\<close> of a directory and a relative path.\<close>

definition path_join :: "string \<Rightarrow> string \<Rightarrow> string" where
  "path_join a b = (if a = [] \<or> last a = CHR ''/'' then a @ b else a @ ''/'' @ b)"

definition MODEL_PATH :: "'t env \<Rightarrow> string" where
  "MODEL_PATH env = path_join (path_join (module_dir env) ''models'') ''best_effnetb0.pth''"

definition IMAGE_SIZE :: "nat \<times> nat" where
  "IMAGE_SIZE = (224, 224)"

definition NORMALIZE_MEAN :: "real list" where
  "NORMALIZE_MEAN = [485 / 1000, 456 / 1000, 406 / 1000]"

definition NORMALIZE_STD :: "real list" where
  "NORMALIZE_STD = [229 / 1000, 224 / 1000, 225 / 1000]"

subsection \<open>Loading the model\<close>

definition create_model :: "'t env \<Rightarrow> nat \<Rightarrow> exn + net" where
  "create_model env num_classes = timm_create_model env ''efficientnet_b0'' False num_classes"

text \<open>\<open>load_model\<close> returns what the call returns or raises, and the global state it
  leaves. The global variable is assigned as soon as the network is created, before the
  checkpoint is read: a failure after that point leaves the variable set.\<close>

definition load_model :: "'t env \<Rightarrow> state \<Rightarrow> (exn + bool) \<times> state" where
  "load_model env st =
     (if \<not> path_exists env (MODEL_PATH env)
      then (Inl (FileNotFoundError (''Model file not found: '' @ MODEL_PATH env)), st)
      else
        (case create_model env 2 of
           Inl e \<Rightarrow> (Inl e, st)
         | Inr m \<Rightarrow>
             (case torch_load env (MODEL_PATH env) of
                Inl e \<Rightarrow> (Inl e, st\<lparr>model := Some m\<rparr>)
              | Inr state_dict \<Rightarrow>
                  (case load_state_dict env m state_dict of
                     (m', Some e) \<Rightarrow> (Inl e, st\<lparr>model := Some m'\<rparr>)
                   | (m', None) \<Rightarrow> (Inr True, st\<lparr>model := Some (net_eval m')\<rparr>)))))"

subsection \<open>Inference\<close>

text \<open>The pipeline \<open>preprocess\<close>: resize, conversion to a tensor, normalisation.\<close>

definition preprocess :: "'t env \<Rightarrow> image \<Rightarrow> 't io" where
  "preprocess env img =
     io_bind (io_call EvResize (resize env IMAGE_SIZE img)) (\<lambda>resized.
     io_bind (io_call EvToTensor (to_tensor env resized)) (\<lambda>t.
     io_call EvNormalize (normalize_tensor env NORMALIZE_MEAN NORMALIZE_STD t)))"

text \<open>The body of \<open>predict_image\<close> in its three parts: the input tensor (conversion to
  RGB when the mode is another one, preprocessing, the batch dimension), the forward
  pass with the softmax and the two probabilities read from it (index 1 is the fake
  class, index 0 the real one), and the returned dictionary.\<close>

definition prepare_input :: "'t env \<Rightarrow> image \<Rightarrow> 't io" where
  "prepare_input env img =
     io_bind (if mode img \<noteq> ''RGB''
              then io_call EvConvert (convert env img ''RGB'')
              else io_return img) (\<lambda>img_rgb.
     io_bind (preprocess env img_rgb) (\<lambda>t.
     io_call EvUnsqueeze (unsqueeze env t 0)))"

definition infer :: "'t env \<Rightarrow> net \<Rightarrow> nat \<Rightarrow> 't \<Rightarrow> (real \<times> real) io" where
  "infer env m rng img_tensor =
     io_bind (io_call EvForward (forward env m rng img_tensor)) (\<lambda>outputs.
     io_bind (io_call EvSoftmax (softmax env outputs 1)) (\<lambda>probabilities.
     io_bind (io_call EvItem (item env probabilities 0 1)) (\<lambda>fake_prob.
     io_bind (io_call EvItem (item env probabilities 0 0)) (\<lambda>real_prob.
     io_return (fake_prob, real_prob)))))"

definition class_probabilities :: "'t env \<Rightarrow> net \<Rightarrow> nat \<Rightarrow> image \<Rightarrow> (real \<times> real) io" where
  "class_probabilities env m rng img =
     io_bind (prepare_input env img) (infer env m rng)"

definition make_result :: "real \<Rightarrow> real \<Rightarrow> prediction" where
  "make_result fake_prob real_prob =
     (let is_fake = (1 / 2 < fake_prob);
          confidence = (if is_fake then fake_prob else real_prob);
          label = (if is_fake then ''FAKE'' else ''REAL'')
      in \<lparr>is_fake = is_fake,
          confidence = py_round confidence 4,
          label = label,
          probabilities = \<lparr>prob_real = py_round real_prob 4,
                           prob_fake = py_round fake_prob 4\<rparr>\<rparr>)"

definition predict_image :: "'t env \<Rightarrow> state \<Rightarrow> nat \<Rightarrow> image \<Rightarrow> prediction io" where
  "predict_image env st rng img =
     (case model st of
        None \<Rightarrow> io_raise (RuntimeError ''Model not loaded'')
      | Some m \<Rightarrow>
          io_bind (class_probabilities env m rng img) (\<lambda>(fake_prob, real_prob).
          io_return (make_result fake_prob real_prob)))"

subsection \<open>The request handler\<close>

text \<open>The body of the handler's \<open>try\<close> block.\<close>

definition process :: "'t env \<Rightarrow> state \<Rightarrow> nat \<Rightarrow> upload_file \<Rightarrow> response io" where
  "process env st rng file =
     io_bind (io_call EvRead (file_read env file)) (\<lambda>contents.
     io_bind (io_call EvOpen (image_open env contents)) (\<lambda>img.
     io_bind (predict_image env st rng img) (\<lambda>res.
     io_return \<lparr>success = True, resp_filename = filename file, result = res\<rparr>)))"

text \<open>\<open>not file.content_type\<close> holds of \<open>None\<close> and of the empty string.\<close>

definition predict ::
  "'t env \<Rightarrow> state \<Rightarrow> nat \<Rightarrow> upload_file \<Rightarrow> event list \<times> (http_exception + response)" where
  "predict env st rng file =
     (if (case content_type file of
            None \<Rightarrow> True
          | Some ct \<Rightarrow> ct = [] \<or> \<not> prefix ''image/'' ct)
      then ([], Inl (HTTPException 400 ''File must be an image (JPEG, PNG, etc.)''))
      else
        (case process env st rng file of
           (t, Inr r) \<Rightarrow> (t, Inr r)
         | (t, Inl e) \<Rightarrow> (t, Inl (HTTPException 500 (''Error processing image: '' @ str e)))))"

subsection \<open>What the library promises in evaluation mode\<close>

text \<open>A network whose training flag is cleared computes its output from its parameters
  and its input alone: the random number generator has no part in it.\<close>

definition eval_deterministic :: "'t env \<Rightarrow> bool" where
  "eval_deterministic env =
     (\<forall>m rng rng' t. \<not> training m \<longrightarrow> forward env m rng t = forward env m rng' t)"

subsection \<open>A small library to run the service on\<close>

text \<open>An executable stand-in for the library, on which the theorems below are run:
  tensors are lists of reals, the first byte of a file chooses the colour mode, the pixel
  values are the network's output, a network in training mode adds the random state to
  each output, and the two outputs are scaled to sum to one.\<close>

definition demo_env :: "real list env" where
  "demo_env =
     \<lparr>module_dir = ''/srv/backend'',
      path_exists = (\<lambda>p. p = ''/srv/backend/models/best_effnetb0.pth''),
      timm_create_model = (\<lambda>name pretrained n. Inr \<lparr>weights = replicate n 0, training = True\<rparr>),
      torch_load = (\<lambda>p. Inr [1, 1]),
      load_state_dict = (\<lambda>m sd. (m\<lparr>weights := sd\<rparr>, None)),
      file_read = (\<lambda>f. Inr (body f)),
      image_open = (\<lambda>bs. case bs of
                        [] \<Rightarrow> Inl (LibraryError ''UnidentifiedImageError'' ''cannot identify image file'')
                      | b # ps \<Rightarrow> Inr \<lparr>mode = (if b = 0 then ''L'' else ''RGB''), pixels = ps\<rparr>),
      convert = (\<lambda>img md. Inr (img\<lparr>mode := md\<rparr>)),
      resize = (\<lambda>sz img. Inr img),
      to_tensor = (\<lambda>img. Inr (map real (pixels img))),
      normalize_tensor = (\<lambda>mean std t. Inr t),
      unsqueeze = (\<lambda>t d. Inr t),
      forward = (\<lambda>m rng t. Inr (if training m then map (\<lambda>x. x + real rng) t else t)),
      softmax = (\<lambda>t d. Inr (map (\<lambda>x. x / sum_list t) t)),
      item = (\<lambda>t i j. if i = 0 \<and> j < length t then Inr (t ! j)
                       else Inl (LibraryError ''IndexError'' ''index out of range''))\<rparr>"

definition demo_state :: state where
  "demo_state = \<lparr>model = Some \<lparr>weights = [1, 1], training = False\<rparr>\<rparr>"

definition demo_trace :: "event list" where
  "demo_trace = [EvResize, EvToTensor, EvNormalize, EvUnsqueeze, EvForward, EvSoftmax, EvItem, EvItem]"

section \<open>Properties\<close>

subsection \<open>Rounding to four places\<close>

lemma round_half_even_error: "\<bar>of_int (round_half_even y) - y\<bar> \<le> 1 / 2"
  unfolding round_half_even_def Let_def
  by (auto simp: abs_le_iff)

lemma py_round_error: "\<bar>py_round x 4 - x\<bar> \<le> 1 / 20000"
proof -
  have "\<bar>of_int (round_half_even (x * 10 ^ 4)) - x * 10 ^ 4\<bar> \<le> 1 / 2"
    by (rule round_half_even_error)
  then show ?thesis
    unfolding py_round_def by (simp add: abs_le_iff field_simps)
qed

lemma round_half_even_eq:
  assumes "of_int k - 1 / 2 \<le> y" "y < of_int k + 1 / 2" "even k"
  shows "round_half_even y = k"
proof -
  have "\<lfloor>y\<rfloor> = k \<or> \<lfloor>y\<rfloor> = k - 1" using assms(1,2) by linarith
  then show ?thesis
  proof
    assume h: "\<lfloor>y\<rfloor> = k"
    then have "y - of_int k < 1 / 2" using assms(2) by linarith
    then show ?thesis using h by (simp add: round_half_even_def Let_def)
  next
    assume h: "\<lfloor>y\<rfloor> = k - 1"
    then have f: "1 / 2 \<le> y - of_int (k - 1)" using assms(1) by simp
    have "odd (k - 1)" using assms(3) by simp
    then show ?thesis using h f by (auto simp: round_half_even_def Let_def)
  qed
qed

lemma round_half_even_mono_ge:
  assumes "of_int k - 1 / 2 \<le> y" "even k"
  shows "k \<le> round_half_even y"
proof (cases "y < of_int k + 1 / 2")
  case True
  then show ?thesis using round_half_even_eq[OF assms(1) True assms(2)] by simp
next
  case False
  then have "k \<le> \<lfloor>y\<rfloor>" by linarith
  then show ?thesis by (auto simp: round_half_even_def Let_def)
qed

lemma py_round_half: "1 / 2 - 1 / 20000 \<le> x \<Longrightarrow> x < 1 / 2 + 1 / 20000 \<Longrightarrow> py_round x 4 = 1 / 2"
proof -
  assume a: "1 / 2 - 1 / 20000 \<le> x" and b: "x < 1 / 2 + 1 / 20000"
  have "round_half_even (x * 10 ^ 4) = 5000"
    by (rule round_half_even_eq) (use a b in auto)
  then show ?thesis by (simp add: py_round_def)
qed

lemma py_round_ge_half: "1 / 2 - 1 / 20000 \<le> x \<Longrightarrow> 1 / 2 \<le> py_round x 4"
proof -
  assume a: "1 / 2 - 1 / 20000 \<le> x"
  have "5000 \<le> round_half_even (x * 10 ^ 4)"
    by (rule round_half_even_mono_ge) (use a in auto)
  then have "(5000::real) \<le> of_int (round_half_even (x * 10 ^ 4))" by linarith
  then show ?thesis by (simp add: py_round_def field_simps)
qed

subsection \<open>Runs of the service on the small library\<close>

lemmas io_defs = io_bind_def io_call_def io_return_def io_raise_def
lemmas pipeline_defs = predict_image_def class_probabilities_def prepare_input_def
  preprocess_def infer_def

lemma demo_load: "load_model demo_env \<lparr>model = None\<rparr> = (Inr True, demo_state)"
  by (simp add: load_model_def demo_env_def demo_state_def MODEL_PATH_def path_join_def
      create_model_def net_eval_def)

lemma demo_probs_rgb:
  "class_probabilities demo_env \<lparr>weights = [1, 1], training = False\<rparr> rng \<lparr>mode = ''RGB'', pixels = [a, b]\<rparr>
     = (demo_trace, Inr (real b / (real a + real b), real a / (real a + real b)))"
  by (simp add: pipeline_defs io_defs demo_env_def demo_trace_def)

lemma demo_predict_rgb:
  "predict_image demo_env demo_state rng \<lparr>mode = ''RGB'', pixels = [a, b]\<rparr>
     = (demo_trace, Inr (make_result (real b / (real a + real b)) (real a / (real a + real b))))"
  by (simp add: predict_image_def demo_state_def demo_probs_rgb io_defs)

lemma predict_image_Inr:
  "predict_image env st rng img = (tr, Inr res) \<longleftrightarrow>
     (\<exists>m fake_prob real_prob. model st = Some m \<and>
        class_probabilities env m rng img = (tr, Inr (fake_prob, real_prob)) \<and>
        res = make_result fake_prob real_prob)"
  by (auto simp: predict_image_def io_defs split: option.splits prod.splits sum.splits)

lemma make_result_fields:
  "is_fake (make_result f r) = (1 / 2 < f)"
  "label (make_result f r) = (if 1 / 2 < f then ''FAKE'' else ''REAL'')"
  "confidence (make_result f r) = py_round (if 1 / 2 < f then f else r) 4"
  "prob_real (probabilities (make_result f r)) = py_round r 4"
  "prob_fake (probabilities (make_result f r)) = py_round f 4"
  by (simp_all add: make_result_def Let_def)

lemma predict_image_result:
  assumes "predict_image env st rng img = (tr, Inr res)"
    and "model st = Some m"
    and "class_probabilities env m rng img = (tr', Inr (fake_prob, real_prob))"
  shows "res = make_result fake_prob real_prob"
  using assms by (auto simp: predict_image_Inr)

subsection \<open>The decision threshold\<close>

text \<open>C1. Whenever \<open>predict_image\<close> returns a result, \<open>is_fake\<close> is the strict comparison
  of the unrounded fake-class probability with one half, and the label follows it: at a
  probability of exactly one half, \<open>is_fake\<close> is false and the label is REAL.\<close>

theorem predict_image_is_fake_strict:
  assumes "predict_image env st rng img = (tr, Inr res)"
  shows "\<exists>m fake_prob real_prob. model st = Some m \<and>
           class_probabilities env m rng img = (tr, Inr (fake_prob, real_prob)) \<and>
           is_fake res = (1 / 2 < fake_prob) \<and>
           label res = (if is_fake res then ''FAKE'' else ''REAL'') \<and>
           (fake_prob = 1 / 2 \<longrightarrow> \<not> is_fake res \<and> label res = ''REAL'')"
proof -
  from assms obtain m fake_prob real_prob where
    m: "model st = Some m" and
    cp: "class_probabilities env m rng img = (tr, Inr (fake_prob, real_prob))" and
    res: "res = make_result fake_prob real_prob"
    unfolding predict_image_Inr by blast
  have "is_fake res = (1 / 2 < fake_prob)"
    and "label res = (if is_fake res then ''FAKE'' else ''REAL'')"
    by (simp_all add: res make_result_def Let_def)
  then show ?thesis using m cp by auto
qed

theorem predict_image_is_fake_strict_witness:
  "\<exists>res. predict_image demo_env demo_state 0 \<lparr>mode = ''RGB'', pixels = [2, 2]\<rparr> = (demo_trace, Inr res) \<and>
     class_probabilities demo_env \<lparr>weights = [1, 1], training = False\<rparr> 0 \<lparr>mode = ''RGB'', pixels = [2, 2]\<rparr>
       = (demo_trace, Inr (1 / 2, 1 / 2)) \<and>
     \<not> is_fake res \<and> label res = ''REAL''"
proof -
  let ?img = "\<lparr>mode = ''RGB'', pixels = [2, 2]\<rparr>"
  have run: "predict_image demo_env demo_state 0 ?img = (demo_trace, Inr (make_result (1 / 2) (1 / 2)))"
    using demo_predict_rgb [of 0 2 2] by simp
  have cp: "class_probabilities demo_env \<lparr>weights = [1, 1], training = False\<rparr> 0 ?img
       = (demo_trace, Inr (1 / 2, 1 / 2))"
    using demo_probs_rgb [of 0 2 2] by simp
  from predict_image_is_fake_strict [OF run] obtain m fake_prob real_prob where
    m: "model demo_state = Some m" and
    cp': "class_probabilities demo_env m 0 ?img = (demo_trace, Inr (fake_prob, real_prob))" and
    h: "fake_prob = 1 / 2 \<longrightarrow> \<not> is_fake (make_result (1 / 2) (1 / 2)) \<and> label (make_result (1 / 2) (1 / 2)) = ''REAL''"
    by blast
  from m have "m = \<lparr>weights = [1, 1], training = False\<rparr>" by (simp add: demo_state_def)
  with cp cp' have "fake_prob = 1 / 2" by simp
  with h run cp show ?thesis by blast
qed

subsection \<open>The confidence field\<close>

text \<open>C2. Whenever \<open>predict_image\<close> returns a result, the label is FAKE or REAL and the
  confidence is the rounded probability of the class the label names: the fake-class
  probability under FAKE, the real-class probability under REAL, which is also the value
  reported for that class among the probabilities.\<close>

theorem confidence_of_labelled_class:
  assumes "predict_image env st rng img = (tr, Inr res)"
  shows "\<exists>m fake_prob real_prob. model st = Some m \<and>
           class_probabilities env m rng img = (tr, Inr (fake_prob, real_prob)) \<and>
           (label res = ''FAKE'' \<or> label res = ''REAL'') \<and>
           (label res = ''FAKE'' \<longrightarrow>
              confidence res = py_round fake_prob 4 \<and>
              confidence res = prob_fake (probabilities res)) \<and>
           (label res = ''REAL'' \<longrightarrow>
              confidence res = py_round real_prob 4 \<and>
              confidence res = prob_real (probabilities res))"
proof -
  from assms obtain m fake_prob real_prob where
    m: "model st = Some m" and
    cp: "class_probabilities env m rng img = (tr, Inr (fake_prob, real_prob))" and
    res: "res = make_result fake_prob real_prob"
    unfolding predict_image_Inr by blast
  have "(label res = ''FAKE'' \<or> label res = ''REAL'') \<and>
        (label res = ''FAKE'' \<longrightarrow>
           confidence res = py_round fake_prob 4 \<and>
           confidence res = prob_fake (probabilities res)) \<and>
        (label res = ''REAL'' \<longrightarrow>
           confidence res = py_round real_prob 4 \<and>
           confidence res = prob_real (probabilities res))"
    by (simp add: res make_result_fields)
  then show ?thesis using m cp by blast
qed

theorem confidence_of_labelled_class_witness:
  "\<exists>res. predict_image demo_env demo_state 0 \<lparr>mode = ''RGB'', pixels = [1, 3]\<rparr> = (demo_trace, Inr res) \<and>
     label res = ''FAKE'' \<and> confidence res = 3 / 4 \<and> py_round (3 / 4) 4 = 3 / 4 \<and>
     prob_fake (probabilities res) = 3 / 4 \<and> prob_real (probabilities res) = 1 / 4"
proof -
  let ?img = "\<lparr>mode = ''RGB'', pixels = [1, 3]\<rparr>"
  let ?res = "make_result (3 / 4) (1 / 4)"
  have run: "predict_image demo_env demo_state 0 ?img = (demo_trace, Inr ?res)"
    using demo_predict_rgb [of 0 1 3] by simp
  have cp: "class_probabilities demo_env \<lparr>weights = [1, 1], training = False\<rparr> 0 ?img
       = (demo_trace, Inr (3 / 4, 1 / 4))"
    using demo_probs_rgb [of 0 1 3] by simp
  have lab: "label ?res = ''FAKE''" by (simp add: make_result_fields)
  have r: "py_round (3 / 4) 4 = 3 / 4" "py_round (1 / 4) 4 = 1 / 4"
    by (simp_all add: py_round_def round_half_even_def Let_def)
  from confidence_of_labelled_class [OF run] obtain m fake_prob real_prob where
    m: "model demo_state = Some m" and
    cp': "class_probabilities demo_env m 0 ?img = (demo_trace, Inr (fake_prob, real_prob))" and
    h: "label ?res = ''FAKE'' \<longrightarrow>
          confidence ?res = py_round fake_prob 4 \<and> confidence ?res = prob_fake (probabilities ?res)"
    by blast
  from m have "m = \<lparr>weights = [1, 1], training = False\<rparr>" by (simp add: demo_state_def)
  with cp cp' have "fake_prob = 3 / 4" by simp
  with h lab r have "confidence ?res = 3 / 4" "prob_fake (probabilities ?res) = 3 / 4" by simp_all
  moreover have "prob_real (probabilities ?res) = 1 / 4" by (simp add: make_result_fields r)
  ultimately show ?thesis using run lab r by blast
qed

subsection \<open>The guard on the model variable\<close>

lemma load_model_ok:
  assumes "load_model env st0 = (Inr True, st)"
  shows "\<exists>m. model st = Some m \<and> \<not> training m"
  using assms
  by (auto simp: load_model_def net_eval_def split: if_splits sum.splits prod.splits option.splits)

lemma prepare_input_trace_nonempty: "fst (prepare_input env img) \<noteq> []"
  by (auto simp: prepare_input_def preprocess_def io_defs split: sum.splits prod.splits)

lemma infer_trace: "\<exists>tr'. fst (infer env m rng t) = EvForward # tr'"
  by (auto simp: infer_def io_defs split: sum.splits prod.splits)

lemma predict_image_loaded_trace:
  assumes "model st = Some m"
  shows "fst (predict_image env st rng img) = fst (class_probabilities env m rng img)"
  using assms by (auto simp: predict_image_def io_defs split: sum.splits prod.splits)

lemma class_probabilities_trace_nonempty: "fst (class_probabilities env m rng img) \<noteq> []"
  using prepare_input_trace_nonempty [of env img]
  by (auto simp: class_probabilities_def io_defs split: sum.splits prod.splits)

lemma class_probabilities_forward:
  assumes "prepare_input env img = (tr, Inr t)"
  shows "prefix (tr @ [EvForward]) (fst (class_probabilities env m rng img))"
proof -
  obtain tr' where "fst (infer env m rng t) = EvForward # tr'"
    using infer_trace [of env m rng t] by auto
  then show ?thesis using assms
    by (auto simp: class_probabilities_def io_bind_def split: prod.splits)
qed

text \<open>C3. While the model variable is \<open>None\<close>, \<open>predict_image\<close> raises the runtime error
  \<open>Model not loaded\<close> with no library call made before it: no conversion, no tensor work.
  After \<open>load_model\<close> has returned, the variable is set, the same call starts the
  library work, and once the input tensor is prepared the network's forward pass is the
  next call.\<close>

theorem model_guard_first:
  "(model st = None \<longrightarrow>
      predict_image env st rng img = ([], Inl (RuntimeError ''Model not loaded''))) \<and>
   (load_model env st0 = (Inr True, st1) \<longrightarrow>
      model st1 \<noteq> None \<and>
      fst (predict_image env st1 rng img) \<noteq> [] \<and>
      (\<forall>tr t. prepare_input env img = (tr, Inr t) \<longrightarrow>
         prefix (tr @ [EvForward]) (fst (predict_image env st1 rng img))))"
proof (intro conjI impI allI)
  assume "model st = None"
  then show "predict_image env st rng img = ([], Inl (RuntimeError ''Model not loaded''))"
    by (simp add: predict_image_def io_raise_def)
next
  assume "load_model env st0 = (Inr True, st1)"
  then show "model st1 \<noteq> None" using load_model_ok by fastforce
next
  assume "load_model env st0 = (Inr True, st1)"
  then obtain m where "model st1 = Some m" using load_model_ok by blast
  then show "fst (predict_image env st1 rng img) \<noteq> []"
    by (simp add: predict_image_loaded_trace class_probabilities_trace_nonempty)
next
  fix tr t
  assume "load_model env st0 = (Inr True, st1)" and p: "prepare_input env img = (tr, Inr t)"
  then obtain m where "model st1 = Some m" using load_model_ok by blast
  then show "prefix (tr @ [EvForward]) (fst (predict_image env st1 rng img))"
    by (simp add: predict_image_loaded_trace class_probabilities_forward [OF p])
qed

theorem model_guard_first_witness:
  "predict_image demo_env \<lparr>model = None\<rparr> 0 \<lparr>mode = ''RGB'', pixels = [1, 3]\<rparr>
     = ([], Inl (RuntimeError ''Model not loaded'')) \<and>
   load_model demo_env \<lparr>model = None\<rparr> = (Inr True, demo_state) \<and>
   prepare_input demo_env \<lparr>mode = ''RGB'', pixels = [1, 3]\<rparr>
     = ([EvResize, EvToTensor, EvNormalize, EvUnsqueeze], Inr [1, 3]) \<and>
   prefix [EvResize, EvToTensor, EvNormalize, EvUnsqueeze, EvForward]
     (fst (predict_image demo_env demo_state 0 \<lparr>mode = ''RGB'', pixels = [1, 3]\<rparr>))"
proof -
  let ?img = "\<lparr>mode = ''RGB'', pixels = [1, 3]\<rparr>"
  have none: "model \<lparr>model = None\<rparr> = None" by simp
  have prep: "prepare_input demo_env ?img = ([EvResize, EvToTensor, EvNormalize, EvUnsqueeze], Inr [1, 3])"
    by (simp add: prepare_input_def preprocess_def io_defs demo_env_def)
  from model_guard_first [of "\<lparr>model = None\<rparr>" demo_env 0 ?img "\<lparr>model = None\<rparr>" demo_state]
  have a: "predict_image demo_env \<lparr>model = None\<rparr> 0 ?img = ([], Inl (RuntimeError ''Model not loaded''))"
    and b: "\<forall>tr t. prepare_input demo_env ?img = (tr, Inr t) \<longrightarrow>
         prefix (tr @ [EvForward]) (fst (predict_image demo_env demo_state 0 ?img))"
    using none demo_load by blast+
  from b prep have "prefix ([EvResize, EvToTensor, EvNormalize, EvUnsqueeze] @ [EvForward])
     (fst (predict_image demo_env demo_state 0 ?img))" by blast
  then show ?thesis using a demo_load prep by simp
qed

subsection \<open>Determinism of inference\<close>

lemma infer_eval_deterministic:
  assumes "eval_deterministic env" "\<not> training m"
  shows "infer env m rng t = infer env m rng' t"
proof -
  have "forward env m rng t = forward env m rng' t"
    using assms by (simp add: eval_deterministic_def)
  then show ?thesis by (simp add: infer_def)
qed

lemma demo_eval_deterministic: "eval_deterministic demo_env"
  by (simp add: eval_deterministic_def demo_env_def)

text \<open>C4. After a successful \<open>load_model\<close> the network is in evaluation mode. With a
  library whose evaluation-mode forward pass does not consult the random state, two runs
  of \<open>predict_image\<close> on the same image give the same calls and the same outcome, hence
  the same label and the same confidence, whatever the random state at each run.\<close>

theorem inference_deterministic:
  assumes "load_model env st0 = (Inr True, st)" and "eval_deterministic env"
  shows "predict_image env st rng img = predict_image env st rng' img"
proof -
  from assms(1) obtain m where m: "model st = Some m" "\<not> training m"
    using load_model_ok by blast
  have "infer env m rng = infer env m rng'"
    using infer_eval_deterministic [OF assms(2) m(2)] by auto
  then show ?thesis by (simp add: predict_image_def class_probabilities_def m(1))
qed

theorem inference_deterministic_witness:
  "load_model demo_env \<lparr>model = None\<rparr> = (Inr True, demo_state) \<and>
   eval_deterministic demo_env \<and>
   predict_image demo_env demo_state 3 \<lparr>mode = ''L'', pixels = [1, 3]\<rparr>
     = predict_image demo_env demo_state 8 \<lparr>mode = ''L'', pixels = [1, 3]\<rparr>"
  using inference_deterministic [OF demo_load demo_eval_deterministic, of 3 "\<lparr>mode = ''L'', pixels = [1, 3]\<rparr>" 8]
    demo_load demo_eval_deterministic by simp

text \<open>The hypothesis on the library is needed, and the call of \<open>model.eval()\<close> with it:
  on the small library a network left in training mode answers differently under two
  random states.\<close>

lemma training_mode_depends_on_rng:
  "predict_image demo_env \<lparr>model = Some \<lparr>weights = [1, 1], training = True\<rparr>\<rparr> 0
      \<lparr>mode = ''RGB'', pixels = [1, 3]\<rparr>
   \<noteq> predict_image demo_env \<lparr>model = Some \<lparr>weights = [1, 1], training = True\<rparr>\<rparr> 1
      \<lparr>mode = ''RGB'', pixels = [1, 3]\<rparr>"
  by (simp add: pipeline_defs io_defs demo_env_def make_result_def py_round_def
      round_half_even_def Let_def)

subsection \<open>The reported probabilities\<close>

text \<open>C5. When the two probabilities read from the softmax output sum to one within
  \<open>eps\<close> (zero for an exact softmax, the floating-point error otherwise), the two
  reported probabilities sum to one within \<open>eps\<close> plus the tolerance of rounding two
  values to four places, \<open>10 ^ -4\<close>.\<close>

theorem reported_probabilities_sum:
  assumes "predict_image env st rng img = (tr, Inr res)"
    and "model st = Some m"
    and "class_probabilities env m rng img = (tr, Inr (fake_prob, real_prob))"
    and "\<bar>real_prob + fake_prob - 1\<bar> \<le> eps"
  shows "\<bar>prob_real (probabilities res) + prob_fake (probabilities res) - 1\<bar> \<le> 1 / 10000 + eps"
proof -
  have res: "res = make_result fake_prob real_prob"
    using assms(1-3) by (rule predict_image_result)
  have "\<bar>py_round real_prob 4 - real_prob\<bar> \<le> 1 / 20000"
    and "\<bar>py_round fake_prob 4 - fake_prob\<bar> \<le> 1 / 20000"
    by (rule py_round_error)+
  with assms(4) have "\<bar>py_round real_prob 4 + py_round fake_prob 4 - 1\<bar> \<le> 1 / 10000 + eps"
    by linarith
  then show ?thesis by (simp add: res make_result_fields)
qed

theorem reported_probabilities_sum_witness:
  "predict_image demo_env demo_state 0 \<lparr>mode = ''RGB'', pixels = [1, 2]\<rparr>
     = (demo_trace, Inr (make_result (2 / 3) (1 / 3))) \<and>
   \<bar>(1 / 3 :: real) + 2 / 3 - 1\<bar> \<le> 0 \<and>
   \<bar>prob_real (probabilities (make_result (2 / 3) (1 / 3)))
      + prob_fake (probabilities (make_result (2 / 3) (1 / 3))) - 1\<bar> \<le> 1 / 10000 + 0"
proof -
  let ?img = "\<lparr>mode = ''RGB'', pixels = [1, 2]\<rparr>"
  have run: "predict_image demo_env demo_state 0 ?img = (demo_trace, Inr (make_result (2 / 3) (1 / 3)))"
    using demo_predict_rgb [of 0 1 2] by simp
  have m: "model demo_state = Some \<lparr>weights = [1, 1], training = False\<rparr>"
    by (simp add: demo_state_def)
  have cp: "class_probabilities demo_env \<lparr>weights = [1, 1], training = False\<rparr> 0 ?img
       = (demo_trace, Inr (2 / 3, 1 / 3))"
    using demo_probs_rgb [of 0 1 2] by simp
  have s: "\<bar>(1 / 3 :: real) + 2 / 3 - 1\<bar> \<le> 0" by simp
  from reported_probabilities_sum [OF run m cp s] run s show ?thesis by blast
qed

text \<open>C6. The three reported numbers are the four-place roundings of the unrounded
  probabilities, while \<open>is_fake\<close> and the choice of the probability that becomes the
  confidence compare the unrounded fake-class probability with one half. On the small
  library a fake-class probability of 0.50004 is reported as 0.5 and still decides FAKE.\<close>

theorem rounding_only_in_record:
  assumes "predict_image env st rng img = (tr, Inr res)"
  shows "\<exists>m fake_prob real_prob. model st = Some m \<and>
           class_probabilities env m rng img = (tr, Inr (fake_prob, real_prob)) \<and>
           is_fake res = (1 / 2 < fake_prob) \<and>
           confidence res = py_round (if 1 / 2 < fake_prob then fake_prob else real_prob) 4 \<and>
           prob_real (probabilities res) = py_round real_prob 4 \<and>
           prob_fake (probabilities res) = py_round fake_prob 4"
proof -
  from assms obtain m fake_prob real_prob where
    m: "model st = Some m" and
    cp: "class_probabilities env m rng img = (tr, Inr (fake_prob, real_prob))" and
    res: "res = make_result fake_prob real_prob"
    unfolding predict_image_Inr by blast
  show ?thesis using m cp by (auto simp: res make_result_fields)
qed

theorem rounding_only_in_record_witness:
  "\<exists>res. predict_image demo_env demo_state 0 \<lparr>mode = ''RGB'', pixels = [49996, 50004]\<rparr>
            = (demo_trace, Inr res) \<and>
     class_probabilities demo_env \<lparr>weights = [1, 1], training = False\<rparr> 0
         \<lparr>mode = ''RGB'', pixels = [49996, 50004]\<rparr>
       = (demo_trace, Inr (50004 / 100000, 49996 / 100000)) \<and>
     is_fake res \<and> prob_fake (probabilities res) = 1 / 2 \<and> confidence res = 1 / 2 \<and>
     prob_real (probabilities res) = 1 / 2"
proof -
  let ?img = "\<lparr>mode = ''RGB'', pixels = [49996, 50004]\<rparr>"
  let ?res = "make_result (50004 / 100000) (49996 / 100000)"
  have run: "predict_image demo_env demo_state 0 ?img = (demo_trace, Inr ?res)"
    using demo_predict_rgb [of 0 49996 50004] by simp
  have cp: "class_probabilities demo_env \<lparr>weights = [1, 1], training = False\<rparr> 0 ?img
       = (demo_trace, Inr (50004 / 100000, 49996 / 100000))"
    using demo_probs_rgb [of 0 49996 50004] by simp
  have r: "py_round (50004 / 100000) 4 = 1 / 2" "py_round (49996 / 100000) 4 = 1 / 2"
    by (simp_all add: py_round_def round_half_even_def Let_def)
  from rounding_only_in_record [OF run] obtain m fake_prob real_prob where
    m: "model demo_state = Some m" and
    cp': "class_probabilities demo_env m 0 ?img = (demo_trace, Inr (fake_prob, real_prob))" and
    h: "is_fake ?res = (1 / 2 < fake_prob)"
       "confidence ?res = py_round (if 1 / 2 < fake_prob then fake_prob else real_prob) 4"
       "prob_real (probabilities ?res) = py_round real_prob 4"
       "prob_fake (probabilities ?res) = py_round fake_prob 4"
    by blast
  from m have "m = \<lparr>weights = [1, 1], training = False\<rparr>" by (simp add: demo_state_def)
  with cp cp' have "fake_prob = 50004 / 100000" "real_prob = 49996 / 100000" by simp_all
  with h r have "is_fake ?res" "prob_fake (probabilities ?res) = 1 / 2"
    "confidence ?res = 1 / 2" "prob_real (probabilities ?res) = 1 / 2" by simp_all
  with run cp show ?thesis by blast
qed

subsection \<open>The request handler\<close>

text \<open>C7. A request whose file has no declared content type, or one that does not start
  with \<open>image/\<close>, is answered with status 400, and no library call is made: the upload is
  neither read nor decoded and the model is not invoked.\<close>

theorem non_image_rejected:
  assumes "content_type file = None \<or> (\<exists>ct. content_type file = Some ct \<and> \<not> prefix ''image/'' ct)"
  shows "predict env st rng file
           = ([], Inl (HTTPException 400 ''File must be an image (JPEG, PNG, etc.)''))"
  using assms by (auto simp: predict_def)

theorem non_image_rejected_witness:
  "predict demo_env demo_state 0 \<lparr>content_type = Some ''text/plain'', filename = Some ''a.txt'', body = [1, 1, 3]\<rparr>
     = ([], Inl (HTTPException 400 ''File must be an image (JPEG, PNG, etc.)'')) \<and>
   predict demo_env demo_state 0 \<lparr>content_type = None, filename = Some ''a.png'', body = [1, 1, 3]\<rparr>
     = ([], Inl (HTTPException 400 ''File must be an image (JPEG, PNG, etc.)''))"
proof -
  let ?f = "\<lparr>content_type = Some ''text/plain'', filename = Some ''a.txt'', body = [1, 1, 3]\<rparr>"
  let ?g = "\<lparr>content_type = None, filename = Some ''a.png'', body = [1, 1, 3]\<rparr>"
  have a: "content_type ?f = None \<or> (\<exists>ct. content_type ?f = Some ct \<and> \<not> prefix ''image/'' ct)"
    by simp
  have b: "content_type ?g = None \<or> (\<exists>ct. content_type ?g = Some ct \<and> \<not> prefix ''image/'' ct)"
    by simp
  show ?thesis
    using non_image_rejected [OF a, of demo_env demo_state 0]
      non_image_rejected [OF b, of demo_env demo_state 0] by simp
qed

subsection \<open>Colour modes\<close>

lemma prepare_input_convert:
  assumes "mode img \<noteq> ''RGB''" "convert env img ''RGB'' = Inr img'" "mode img' = ''RGB''"
  shows "prepare_input env img = (EvConvert # fst (prepare_input env img'), snd (prepare_input env img'))"
  using assms by (simp add: prepare_input_def io_defs split: prod.splits sum.splits)

lemma class_probabilities_convert:
  assumes "mode img \<noteq> ''RGB''" "convert env img ''RGB'' = Inr img'" "mode img' = ''RGB''"
  shows "class_probabilities env m rng img
    = (EvConvert # fst (class_probabilities env m rng img'), snd (class_probabilities env m rng img'))"
  unfolding class_probabilities_def prepare_input_convert [OF assms]
  by (simp add: io_bind_def split: prod.splits sum.splits)

lemma io_bind_trace_notin:
  assumes "ev \<notin> set (fst p)" and "\<And>x. ev \<notin> set (fst (f x))"
  shows "ev \<notin> set (fst (io_bind p f))"
proof (cases p)
  case (Pair t r)
  show ?thesis
  proof (cases r)
    case (Inl e)
    with Pair assms(1) show ?thesis by (simp add: io_bind_def)
  next
    case (Inr x)
    obtain t' r' where fx: "f x = (t', r')" by (cases "f x")
    with assms(2) [of x] have "ev \<notin> set t'" by simp
    with Pair Inr fx assms(1) show ?thesis by (simp add: io_bind_def)
  qed
qed

lemma prepare_input_rgb:
  assumes "mode img = ''RGB''"
  shows "EvConvert \<notin> set (fst (prepare_input env img))"
  using assms by (auto simp: prepare_input_def preprocess_def io_defs split: prod.splits sum.splits)

lemma infer_no_convert: "EvConvert \<notin> set (fst (infer env m rng t))"
  by (auto simp: infer_def io_defs split: prod.splits sum.splits)

lemma class_probabilities_rgb:
  assumes "mode img = ''RGB''"
  shows "EvConvert \<notin> set (fst (class_probabilities env m rng img))"
  unfolding class_probabilities_def
  by (rule io_bind_trace_notin) (simp_all add: prepare_input_rgb [OF assms] infer_no_convert)

lemma predict_image_trace:
  "fst (predict_image env st rng img)
     = (case model st of None \<Rightarrow> [] | Some m \<Rightarrow> fst (class_probabilities env m rng img))"
  by (auto simp: predict_image_def io_defs split: option.splits sum.splits prod.splits)

text \<open>C8. An image whose mode is not RGB is converted to RGB first and then processed as
  the converted image is: where the converted image yields a prediction, the original
  yields the same prediction after one more call, the conversion, and no error. An image
  already in mode RGB is never converted.\<close>

theorem non_rgb_converted:
  "(mode img \<noteq> ''RGB'' \<longrightarrow>
      (\<forall>img' tr res. convert env img ''RGB'' = Inr img' \<longrightarrow> mode img' = ''RGB'' \<longrightarrow>
         predict_image env st rng img' = (tr, Inr res) \<longrightarrow>
         predict_image env st rng img = (EvConvert # tr, Inr res))) \<and>
   (mode img = ''RGB'' \<longrightarrow> EvConvert \<notin> set (fst (predict_image env st rng img)))"
proof (intro conjI impI allI)
  fix img' tr res
  assume a: "mode img \<noteq> ''RGB''" "convert env img ''RGB'' = Inr img'" "mode img' = ''RGB''"
    and run: "predict_image env st rng img' = (tr, Inr res)"
  from run obtain m f r where m: "model st = Some m"
    and cp: "class_probabilities env m rng img' = (tr, Inr (f, r))"
    and res: "res = make_result f r"
    unfolding predict_image_Inr by blast
  have "class_probabilities env m rng img = (EvConvert # tr, Inr (f, r))"
    using class_probabilities_convert [OF a, of m rng] cp by simp
  then show "predict_image env st rng img = (EvConvert # tr, Inr res)"
    using m res unfolding predict_image_Inr by blast
next
  assume "mode img = ''RGB''"
  then show "EvConvert \<notin> set (fst (predict_image env st rng img))"
    by (simp add: predict_image_trace class_probabilities_rgb split: option.splits)
qed

theorem non_rgb_converted_witness:
  "predict_image demo_env demo_state 0 \<lparr>mode = ''L'', pixels = [1, 3]\<rparr>
     = (EvConvert # demo_trace, Inr (make_result (3 / 4) (1 / 4))) \<and>
   predict_image demo_env demo_state 0 \<lparr>mode = ''RGB'', pixels = [1, 3]\<rparr>
     = (demo_trace, Inr (make_result (3 / 4) (1 / 4))) \<and>
   EvConvert \<notin> set (fst (predict_image demo_env demo_state 0 \<lparr>mode = ''RGB'', pixels = [1, 3]\<rparr>))"
proof -
  let ?grey = "\<lparr>mode = ''L'', pixels = [1, 3]\<rparr>"
  let ?rgb = "\<lparr>mode = ''RGB'', pixels = [1, 3]\<rparr>"
  have run: "predict_image demo_env demo_state 0 ?rgb = (demo_trace, Inr (make_result (3 / 4) (1 / 4)))"
    using demo_predict_rgb [of 0 1 3] by simp
  have c: "convert demo_env ?grey ''RGB'' = Inr ?rgb" by (simp add: demo_env_def)
  have g: "mode ?grey \<noteq> ''RGB''" and r: "mode ?rgb = ''RGB''" by simp_all
  from non_rgb_converted [of ?grey demo_env demo_state 0] g c r run
  have "predict_image demo_env demo_state 0 ?grey = (EvConvert # demo_trace, Inr (make_result (3 / 4) (1 / 4)))"
    by blast
  moreover from non_rgb_converted [of ?rgb demo_env demo_state 0] r
  have "EvConvert \<notin> set (fst (predict_image demo_env demo_state 0 ?rgb))" by blast
  ultimately show ?thesis using run by blast
qed

subsection \<open>Failures inside the handler\<close>

lemma predict_guard_passed:
  assumes "content_type file = Some ct" "prefix ''image/'' ct"
  shows "predict env st rng file =
     (case process env st rng file of
        (t, Inr r) \<Rightarrow> (t, Inr r)
      | (t, Inl e) \<Rightarrow> (t, Inl (HTTPException 500 (''Error processing image: '' @ str e))))"
  using assms by (auto simp: predict_def)

text \<open>C9. For a request whose content type starts with \<open>image/\<close>, an exception raised by
  reading the upload, by opening the image or anywhere in \<open>predict_image\<close> (the
  \<open>Model not loaded\<close> error among them) becomes an HTTP exception with status 500 whose
  detail is \<open>Error processing image:\<close> followed by the exception's message; no response
  record is returned in that case. Only a run without exception returns one.\<close>

theorem failures_reported_as_500:
  assumes "content_type file = Some ct" and "prefix ''image/'' ct"
  shows "(\<forall>e. file_read env file = Inl e \<longrightarrow>
            predict env st rng file
              = ([EvRead], Inl (HTTPException 500 (''Error processing image: '' @ str e)))) \<and>
         (\<forall>bs e. file_read env file = Inr bs \<longrightarrow> image_open env bs = Inl e \<longrightarrow>
            predict env st rng file
              = ([EvRead, EvOpen], Inl (HTTPException 500 (''Error processing image: '' @ str e)))) \<and>
         (\<forall>bs img tr e. file_read env file = Inr bs \<longrightarrow> image_open env bs = Inr img \<longrightarrow>
            predict_image env st rng img = (tr, Inl e) \<longrightarrow>
            predict env st rng file
              = (EvRead # EvOpen # tr, Inl (HTTPException 500 (''Error processing image: '' @ str e)))) \<and>
         (\<forall>bs img. file_read env file = Inr bs \<longrightarrow> image_open env bs = Inr img \<longrightarrow>
            model st = None \<longrightarrow>
            predict env st rng file
              = ([EvRead, EvOpen], Inl (HTTPException 500 ''Error processing image: Model not loaded''))) \<and>
         (\<forall>bs img tr res. file_read env file = Inr bs \<longrightarrow> image_open env bs = Inr img \<longrightarrow>
            predict_image env st rng img = (tr, Inr res) \<longrightarrow>
            predict env st rng file
              = (EvRead # EvOpen # tr,
                 Inr \<lparr>success = True, resp_filename = filename file, result = res\<rparr>))"
  unfolding predict_guard_passed [OF assms]
  by (auto simp: process_def io_defs predict_image_def split: option.splits)

theorem failures_reported_as_500_witness:
  "predict demo_env demo_state 0 \<lparr>content_type = Some ''image/png'', filename = Some ''a.png'', body = []\<rparr>
     = ([EvRead, EvOpen],
        Inl (HTTPException 500 ''Error processing image: cannot identify image file'')) \<and>
   predict demo_env \<lparr>model = None\<rparr> 0
       \<lparr>content_type = Some ''image/png'', filename = Some ''a.png'', body = [1, 1, 3]\<rparr>
     = ([EvRead, EvOpen], Inl (HTTPException 500 ''Error processing image: Model not loaded''))"
proof -
  let ?f = "\<lparr>content_type = Some ''image/png'', filename = Some ''a.png'', body = []\<rparr>"
  let ?g = "\<lparr>content_type = Some ''image/png'', filename = Some ''a.png'', body = [1, 1, 3]\<rparr>"
  have ct: "content_type ?f = Some ''image/png''" "content_type ?g = Some ''image/png''"
    and p: "prefix ''image/'' ''image/png''" by simp_all
  have rf: "file_read demo_env ?f = Inr []"
    and op: "image_open demo_env [] = Inl (LibraryError ''UnidentifiedImageError'' ''cannot identify image file'')"
    and rg: "file_read demo_env ?g = Inr [1, 1, 3]"
    and og: "image_open demo_env [1, 1, 3] = Inr \<lparr>mode = ''RGB'', pixels = [1, 3]\<rparr>"
    and none: "model \<lparr>model = None\<rparr> = None"
    by (simp_all add: demo_env_def)
  from failures_reported_as_500 [OF ct(1) p, of demo_env demo_state 0] rf op
  have "predict demo_env demo_state 0 ?f = ([EvRead, EvOpen],
      Inl (HTTPException 500 (''Error processing image: '' @
        str (LibraryError ''UnidentifiedImageError'' ''cannot identify image file''))))"
    by blast
  moreover from failures_reported_as_500 [OF ct(2) p, of demo_env "\<lparr>model = None\<rparr>" 0] rg og none
  have "predict demo_env \<lparr>model = None\<rparr> 0 ?g
      = ([EvRead, EvOpen], Inl (HTTPException 500 ''Error processing image: Model not loaded''))"
    by blast
  ultimately show ?thesis by simp
qed

subsection \<open>A lower bound on the confidence\<close>

text \<open>C10. When the two probabilities read from the softmax output sum to one (here:
  within half a unit of the fourth decimal place), the confidence is the four-place
  rounding of the larger of the two and is at least one half.\<close>

theorem confidence_is_rounded_maximum:
  assumes "predict_image env st rng img = (tr, Inr res)"
    and "model st = Some m"
    and "class_probabilities env m rng img = (tr, Inr (fake_prob, real_prob))"
    and "\<bar>real_prob + fake_prob - 1\<bar> \<le> 1 / 20000"
  shows "confidence res = py_round (max real_prob fake_prob) 4 \<and> 1 / 2 \<le> confidence res"
proof -
  have res: "res = make_result fake_prob real_prob"
    using assms(1-3) by (rule predict_image_result)
  have sum: "1 - 1 / 20000 \<le> real_prob + fake_prob" "real_prob + fake_prob \<le> 1 + 1 / 20000"
    using assms(4) by linarith+
  show ?thesis
  proof (cases "1 / 2 < fake_prob")
    case True
    then have conf: "confidence res = py_round fake_prob 4"
      by (simp add: res make_result_fields)
    have ge: "1 / 2 \<le> py_round fake_prob 4"
      using True by (intro py_round_ge_half) linarith
    show ?thesis
    proof (cases "real_prob \<le> fake_prob")
      case True
      then show ?thesis using conf ge by (simp add: max_def)
    next
      case False
      with True sum have "py_round fake_prob 4 = 1 / 2" "py_round real_prob 4 = 1 / 2"
        by (intro py_round_half; linarith)+
      with False show ?thesis using conf by (simp add: max_def)
    qed
  next
    case False
    then have conf: "confidence res = py_round real_prob 4"
      by (simp add: res make_result_fields)
    have ge: "1 / 2 \<le> py_round real_prob 4"
      using False sum by (intro py_round_ge_half) linarith
    show ?thesis
    proof (cases "real_prob \<le> fake_prob")
      case True
      with False sum have "py_round fake_prob 4 = 1 / 2" "py_round real_prob 4 = 1 / 2"
        by (intro py_round_half; linarith)+
      then show ?thesis using conf by (simp add: max_def)
    next
      case False
      then show ?thesis using conf ge by (simp add: max_def)
    qed
  qed
qed

theorem confidence_is_rounded_maximum_witness:
  "predict_image demo_env demo_state 0 \<lparr>mode = ''RGB'', pixels = [3, 1]\<rparr>
     = (demo_trace, Inr (make_result (1 / 4) (3 / 4))) \<and>
   \<bar>(3 / 4 :: real) + 1 / 4 - 1\<bar> \<le> 1 / 20000 \<and>
   confidence (make_result (1 / 4) (3 / 4)) = py_round (max (3 / 4) (1 / 4)) 4 \<and>
   (1 / 2 :: real) \<le> confidence (make_result (1 / 4) (3 / 4))"
proof -
  let ?img = "\<lparr>mode = ''RGB'', pixels = [3, 1]\<rparr>"
  have run: "predict_image demo_env demo_state 0 ?img = (demo_trace, Inr (make_result (1 / 4) (3 / 4)))"
    using demo_predict_rgb [of 0 3 1] by simp
  have m: "model demo_state = Some \<lparr>weights = [1, 1], training = False\<rparr>"
    by (simp add: demo_state_def)
  have cp: "class_probabilities demo_env \<lparr>weights = [1, 1], training = False\<rparr> 0 ?img
       = (demo_trace, Inr (1 / 4, 3 / 4))"
    using demo_probs_rgb [of 0 3 1] by simp
  have s: "\<bar>(3 / 4 :: real) + 1 / 4 - 1\<bar> \<le> 1 / 20000" by simp
  from confidence_is_rounded_maximum [OF run m cp s] run s show ?thesis by blast
qed

end
